theory Spec2Isabelle
  imports Complex_Main "HOL-Library.Sublist"
begin

section \<open>Python strings\<close>

text \<open>
  A Python \<open>str\<close> is modelled as a \<open>string\<close> whose characters are the code points
  below 256. \<open>isspace\<close> is \<open>str.isspace\<close> on that range; it is the class that
  \<open>str.strip()\<close> trims and that the pattern \<open>\s\<close> of \<open>re\<close> matches on a \<open>str\<close>.
\<close>

definition isspace :: "char \<Rightarrow> bool" where
  "isspace c = (c \<in> set [CHR 0x09, CHR 0x0A, CHR 0x0B, CHR 0x0C, CHR 0x0D,
                            CHR 0x1C, CHR 0x1D, CHR 0x1E, CHR 0x1F, CHR 0x20,
                            CHR 0x85, CHR 0xA0])"

definition lstrip :: "string \<Rightarrow> string" where
  "lstrip s = dropWhile isspace s"

definition rstrip :: "string \<Rightarrow> string" where
  "rstrip s = rev (dropWhile isspace (rev s))"

definition strip :: "string \<Rightarrow> string" where
  "strip s = rstrip (lstrip s)"

text \<open>\<open>str.lower()\<close> on the code points below 256: the letters \<open>A\<close> to \<open>Z\<close> and the
  capital letters from U+00C0 to U+00DE (U+00D7, the multiplication sign, is not one) move
  up by 32; every other code point stays.\<close>

definition lower_char :: "char \<Rightarrow> char" where
  "lower_char c =
     (let n = (of_char c :: nat) in
      if (65 \<le> n \<and> n \<le> 90) \<or> (192 \<le> n \<and> n \<le> 222 \<and> n \<noteq> 215) then char_of (n + 32) else c)"

definition lower :: "string \<Rightarrow> string" where
  "lower s = map lower_char s"

text \<open>\<open>sub in s\<close> on strings.\<close>

fun contains :: "string \<Rightarrow> string \<Rightarrow> bool" where
  "contains sub [] = (sub = [])"
| "contains sub (c # cs) = (prefix sub (c # cs) \<or> contains sub cs)"

text \<open>\<open>str(n)\<close> for an integer.\<close>

definition digit_char :: "nat \<Rightarrow> char" where
  "digit_char d = ''0123456789'' ! d"

fun str_nat :: "nat \<Rightarrow> string" where
  "str_nat n = (if n < 10 then [digit_char n] else str_nat (n div 10) @ [digit_char (n mod 10)])"

declare str_nat.simps [simp del]

definition str_int :: "int \<Rightarrow> string" where
  "str_int i = (if i < 0 then CHR ''-'' # str_nat (nat (- i)) else str_nat (nat i))"

section \<open>Utility functions\<close>

subsection \<open>\<open>sanitize_filename\<close>\<close>

text \<open>The character class \<open>[<>:"/\\|?*]\<close> of the first substitution.\<close>

definition forbidden_chars :: "char list" where
  "forbidden_chars = [CHR ''<'', CHR ''>'', CHR '':'', CHR 0x22, CHR ''/'', CHR 0x5C,
                      CHR ''|'', CHR ''?'', CHR ''*'']"

text \<open>\<open>re.sub(r'\s+', ' ', s)\<close>: every maximal run of whitespace becomes one space.\<close>

function collapse_ws :: "string \<Rightarrow> string" where
  "collapse_ws [] = []"
| "collapse_ws (c # cs) =
     (if isspace c then CHR 0x20 # collapse_ws (dropWhile isspace cs) else c # collapse_ws cs)"
  by pat_completeness auto
termination
  by (relation "measure length") (auto simp: length_dropWhile_le less_Suc_eq_le)

text \<open>The argument is \<open>None\<close> or a \<open>str\<close>; both \<open>None\<close> and \<open>''\<close> are falsy.\<close>

definition sanitize_filename :: "string option \<Rightarrow> string" where
  "sanitize_filename filename =
     (case filename of
        None \<Rightarrow> ''media_file''
      | Some f0 \<Rightarrow>
          if f0 = [] then ''media_file''
          else
            (let f1 = filter (\<lambda>c. c \<notin> set forbidden_chars) f0;
                 f2 = strip (collapse_ws f1);
                 f3 = (if length f2 > 100 then take 100 f2 else f2)
             in if f3 = [] then ''media_file'' else f3))"

text \<open>Two adjacent whitespace characters somewhere in the string.\<close>

fun has_ws_run :: "string \<Rightarrow> bool" where
  "has_ws_run (c # d # cs) = ((isspace c \<and> isspace d) \<or> has_ws_run (d # cs))"
| "has_ws_run [c] = False"
| "has_ws_run [] = False"

subsection \<open>\<open>is_supported_url\<close>\<close>

definition supported_domains :: "string list" where
  "supported_domains =
     [''youtube.com'', ''youtu.be'', ''music.youtube.com'',
      ''instagram.com'', ''www.instagram.com'',
      ''facebook.com'', ''fb.watch'', ''www.facebook.com'',
      ''tiktok.com'', ''vm.tiktok.com'', ''www.tiktok.com'',
      ''twitter.com'', ''x.com'', ''www.twitter.com'',
      ''soundcloud.com'', ''www.soundcloud.com'',
      ''vimeo.com'', ''www.vimeo.com'',
      ''dailymotion.com'', ''www.dailymotion.com'']"

text \<open>
  \<open>urllib.parse.urlparse(url).netloc\<close> belongs to the standard library, so the function
  takes it as the parameter \<open>netloc_of\<close>: \<open>None\<close> when the parser raises \<open>ValueError\<close>,
  otherwise the network location. The argument \<open>url\<close> is \<open>None\<close> or a \<open>str\<close>; on \<open>None\<close>
  the call \<open>url.strip()\<close> raises \<open>AttributeError\<close>, which the handler turns into \<open>False\<close>.
\<close>

definition with_scheme :: "string \<Rightarrow> string" where
  "with_scheme u = (if prefix ''http://'' u \<or> prefix ''https://'' u then u else ''https://'' @ u)"

definition is_supported_url :: "(string \<Rightarrow> string option) \<Rightarrow> string option \<Rightarrow> bool" where
  "is_supported_url netloc_of url =
     (case url of
        None \<Rightarrow> False
      | Some raw \<Rightarrow>
          (let u = strip raw in
           if u = [] then False
           else
             (case netloc_of (with_scheme u) of
                None \<Rightarrow> False
              | Some netloc \<Rightarrow>
                  list_ex (\<lambda>supported. contains supported (lower netloc)) supported_domains)))"

text \<open>
  A reference parser for the examples: the network location as CPython's \<open>urlsplit\<close>
  (3.11) computes it on code points below 256. \<open>split_netloc\<close> strips leading control
  characters and spaces, removes tabs and line breaks, splits the scheme off at the first
  colon and takes the authority from \<open>//\<close> to the first of \<open>/\<close>, \<open>?\<close>, \<open>#\<close>.
  \<open>urlsplit_netloc\<close> adds the checks that raise \<open>ValueError\<close>: an unmatched square
  bracket, and a bracketed host that \<open>_check_bracketed_host\<close> refuses. That last check
  belongs to the \<open>ipaddress\<close> module and is the parameter \<open>check\<close>.
\<close>

definition scheme_chars :: "char list" where
  "scheme_chars = ''abcdefghijklmnopqrstuvwxyzABCDEFGHIJKLMNOPQRSTUVWXYZ0123456789+-.''"

definition ascii_alpha :: "char \<Rightarrow> bool" where
  "ascii_alpha c = (c \<in> set ''abcdefghijklmnopqrstuvwxyzABCDEFGHIJKLMNOPQRSTUVWXYZ'')"

definition split_netloc :: "string \<Rightarrow> string" where
  "split_netloc url0 =
     (let url1 = filter (\<lambda>c. c \<notin> set [CHR 0x09, CHR 0x0A, CHR 0x0D])
                   (dropWhile (\<lambda>c. (of_char c :: nat) \<le> 32) url0);
          sch = takeWhile (\<lambda>c. c \<noteq> CHR '':'') url1;
          url2 = (if length sch < length url1 \<and> sch \<noteq> [] \<and> ascii_alpha (hd sch)
                     \<and> list_all (\<lambda>c. c \<in> set scheme_chars) sch
                  then drop (Suc (length sch)) url1 else url1)
      in if prefix ''//'' url2
         then takeWhile (\<lambda>c. c \<notin> set ''/?#'') (drop 2 url2) else [])"

definition urlsplit_netloc :: "(string \<Rightarrow> bool) \<Rightarrow> string \<Rightarrow> string option" where
  "urlsplit_netloc check url =
     (let netloc = split_netloc url in
      if (CHR ''['' \<in> set netloc) \<noteq> (CHR '']'' \<in> set netloc) then None
      else if CHR ''['' \<in> set netloc
              \<and> \<not> check (takeWhile (\<lambda>c. c \<noteq> CHR '']'')
                             (tl (dropWhile (\<lambda>c. c \<noteq> CHR ''['') netloc)))
      then None
      else Some netloc)"

text \<open>The check that refuses every bracketed host; the examples and the collaborators
  below use it, and none of their URLs has a square bracket.\<close>

definition refuse_bracketed :: "string \<Rightarrow> bool" where
  "refuse_bracketed bracketed_host = False"

text \<open>
  \<open>urlparse(url).hostname\<close> before it is lowered, from the network location: what
  follows the last \<open>@\<close>, and of that the part between the square brackets if there is
  an opening one, or else the part before the first colon.
\<close>

definition hostname_of :: "string \<Rightarrow> string" where
  "hostname_of netloc =
     (let hostinfo = rev (takeWhile (\<lambda>c. c \<noteq> CHR ''@'') (rev netloc)) in
      if CHR ''['' \<in> set hostinfo
      then takeWhile (\<lambda>c. c \<noteq> CHR '']'') (tl (dropWhile (\<lambda>c. c \<noteq> CHR ''['') hostinfo))
      else takeWhile (\<lambda>c. c \<noteq> CHR '':'') hostinfo)"

section \<open>The storage area\<close>

text \<open>
  \<open>TEMP_DIR\<close> is one flat directory. It is modelled as an association list from entry
  names (a path is \<open>TEMP_DIR\<close> joined with the name) to what \<open>os.stat\<close> reports; the first
  binding of a name is the entry, and the listing order is the order of the list. An
  entry is a regular file or not (a directory); times are seconds as real numbers.
\<close>

record file_stat =
  st_size :: nat
  st_mtime :: real
  st_ctime :: real
  st_isfile :: bool

type_synonym storage = "(string \<times> file_stat) list"

definition listdir :: "storage \<Rightarrow> string list" where
  "listdir st = remdups (map fst st)"

text \<open>\<open>os.path.getsize\<close>: \<open>None\<close> when it raises \<open>OSError\<close> (no such entry).\<close>

definition getsize :: "storage \<Rightarrow> string \<Rightarrow> nat option" where
  "getsize st p = map_option st_size (map_of st p)"

definition path_exists :: "storage \<Rightarrow> string \<Rightarrow> bool" where
  "path_exists st p = (map_of st p \<noteq> None)"

definition isfile :: "storage \<Rightarrow> string \<Rightarrow> bool" where
  "isfile st p = (case map_of st p of Some e \<Rightarrow> st_isfile e | None \<Rightarrow> False)"

text \<open>\<open>os.unlink\<close>: removes a regular file; \<open>None\<close> when it raises (no such entry, or a
  directory).\<close>

definition unlink :: "storage \<Rightarrow> string \<Rightarrow> storage option" where
  "unlink st p = (if isfile st p then Some (filter (\<lambda>(n, e). n \<noteq> p) st) else None)"

definition token_prefix :: "int \<Rightarrow> string" where
  "token_prefix timestamp = ''download_'' @ str_int timestamp @ ''_''"

text \<open>\<open>glob.glob(os.path.join(TEMP_DIR, f"download_{timestamp}_*"))\<close>.\<close>

definition glob_token :: "int \<Rightarrow> storage \<Rightarrow> string list" where
  "glob_token timestamp st = filter (prefix (token_prefix timestamp)) (listdir st)"

text \<open>\<open>glob.glob(os.path.join(TEMP_DIR, "*"))\<close>: the pattern \<open>*\<close> skips names that start
  with a dot.\<close>

definition glob_all :: "storage \<Rightarrow> string list" where
  "glob_all st = filter (\<lambda>n. \<not> prefix ''.'' n) (listdir st)"

definition getmtime :: "storage \<Rightarrow> string \<Rightarrow> real" where
  "getmtime st p = (case map_of st p of Some e \<Rightarrow> st_mtime e | None \<Rightarrow> 0)"

text \<open>The head of \<open>all_files\<close> after the stable \<open>sort(key=os.path.getmtime, reverse=True)\<close>:
  the first name, in listing order, of greatest modification time.\<close>

fun newest :: "storage \<Rightarrow> string \<Rightarrow> string list \<Rightarrow> string" where
  "newest st best [] = best"
| "newest st best (p # ps) =
     (if getmtime st p > getmtime st best then newest st p ps else newest st best ps)"

subsection \<open>\<open>CleanupManager.cleanup_old_files\<close>\<close>

text \<open>The loop over \<open>os.listdir(TEMP_DIR)\<close>, with the storage and \<open>deleted_files\<close> threaded
  through; \<open>current_time\<close> is the one reading of \<open>time.time()\<close> before the loop.\<close>

fun sweep :: "real \<Rightarrow> real \<Rightarrow> string list \<Rightarrow> storage \<Rightarrow> nat \<Rightarrow> storage \<times> nat" where
  "sweep current_time max_age_minutes [] st deleted_files = (st, deleted_files)"
| "sweep current_time max_age_minutes (filename # rest) st deleted_files =
     (case map_of st filename of
        None \<Rightarrow> sweep current_time max_age_minutes rest st deleted_files
      | Some e \<Rightarrow>
          if st_isfile e \<and> (current_time - st_ctime e) / 60 > max_age_minutes
          then (case unlink st filename of
                  Some st' \<Rightarrow> sweep current_time max_age_minutes rest st' (deleted_files + 1)
                | None \<Rightarrow> sweep current_time max_age_minutes rest st deleted_files)
          else sweep current_time max_age_minutes rest st deleted_files)"

text \<open>The result is the storage afterwards and the count \<open>deleted_files\<close> that is logged.\<close>

definition cleanup_old_files :: "real \<Rightarrow> real \<Rightarrow> storage \<Rightarrow> storage \<times> nat" where
  "cleanup_old_files current_time max_age_minutes st =
     sweep current_time max_age_minutes (listdir st) st 0"

subsection \<open>The verification loop of \<open>download_media\<close>\<close>

text \<open>
  \<open>for file_path in files\<close>: a size above 1024 sets \<open>downloaded_file_path\<close> and breaks;
  otherwise the entry is unlinked (an error of \<open>os.unlink\<close> is passed over); an error
  of \<open>os.path.getsize\<close> continues with the next entry.
\<close>

fun verify_files :: "string list \<Rightarrow> storage \<Rightarrow> string option \<times> storage" where
  "verify_files [] st = (None, st)"
| "verify_files (file_path # rest) st =
     (case getsize st file_path of
        None \<Rightarrow> verify_files rest st
      | Some file_size \<Rightarrow>
          if file_size > 1024 then (Some file_path, st)
          else verify_files rest (case unlink st file_path of Some st' \<Rightarrow> st' | None \<Rightarrow> st))"

text \<open>Discovery: the entries of the attempt's token, or else the newest entry of the
  directory.\<close>

definition discover :: "int \<Rightarrow> storage \<Rightarrow> string list" where
  "discover timestamp st =
     (let files = glob_token timestamp st in
      if files = [] then (case glob_all st of [] \<Rightarrow> [] | p # ps \<Rightarrow> [newest st p ps])
      else files)"

text \<open>The cleanup of the two exception handlers: the loop stops at the first error of
  \<open>os.unlink\<close>, and an unbound \<open>timestamp\<close> (\<open>NameError\<close>) skips it; both are passed over.\<close>

fun unlink_all :: "string list \<Rightarrow> storage \<Rightarrow> storage" where
  "unlink_all [] st = st"
| "unlink_all (file_path # rest) st =
     (case unlink st file_path of None \<Rightarrow> st | Some st' \<Rightarrow> unlink_all rest st')"

definition purge_partial :: "int option \<Rightarrow> storage \<Rightarrow> storage" where
  "purge_partial timestamp st =
     (case timestamp of None \<Rightarrow> st | Some t \<Rightarrow> unlink_all (glob_token t st) st)"

section \<open>The bot and its collaborators\<close>

text \<open>
  An exception is its class, as far as the handlers tell classes apart
  (\<open>yt_dlp.DownloadError\<close> or any other \<open>Exception\<close>), and its message \<open>str(e)\<close>.
\<close>

datatype exn = DownloadError string | OtherError string

fun str_exn :: "exn \<Rightarrow> string" where
  "str_exn (DownloadError m) = m"
| "str_exn (OtherError m) = m"

text \<open>A key of a dictionary: absent, bound to \<open>None\<close>, or bound to a value;
  \<open>dict_get f d\<close> is \<open>d.get(key, default)\<close>.\<close>

datatype 'a field = Missing | Null | Val 'a

fun dict_get :: "'a field \<Rightarrow> 'a \<Rightarrow> 'a option" where
  "dict_get Missing d = Some d"
| "dict_get Null d = None"
| "dict_get (Val v) d = Some v"

text \<open>The dictionaries the engine returns (the keys the bot reads).\<close>

record info_dict =
  d_title :: "string field"
  d_duration :: "real field"
  d_uploader :: "string field"
  d_url :: "string field"

text \<open>The texts the bot sends, by their role; a constructor's arguments are the parts of
  the text that are computed.\<close>

datatype message =
    MsgStarting | MsgRetry nat nat | MsgDownloading string
  | MsgUnsupportedURL | MsgVerifying | MsgNoContentReceived | MsgFileNotFound | MsgTooSmall
  | MsgUploading | MsgUploadSuccessful | MsgUploadRetrying nat | MsgUploadedAsDocument
  | MsgUploadFailed string
  | MsgVideoUnavailable | MsgAccessBlocked | MsgNoContent | MsgDownloadError string
  | MsgMainMenu
  | MsgTwoCharacters | MsgSearching string | MsgNoResults | MsgNoValidResults
  | MsgTopResults "string list" | MsgSearchError string

datatype call =
    SendMessage message | SendChatAction string
  | SendAudio string | SendVideo string | SendDocument string

datatype event =
    Transport int call bool
  | Probe string
  | Fetch string string string
  | Search string

text \<open>
  The collaborators are outside the program, so their behaviour is a parameter. Each is
  asked with the number of the call (how many calls of that kind went before) and the
  call's arguments:
  \<^item> \<open>transport\<close>: a call of the chat transport succeeds (\<open>None\<close>) or raises with a message;
  \<^item> \<open>extract_info\<close>: the metadata probe returns a dictionary (\<open>None\<close> when it is falsy) or
    raises;
  \<^item> \<open>download\<close>: the fetch, given URL, format directive and output template, writes
    entries (name and size) into the storage area and then returns or raises;
  \<^item> \<open>search\<close>: the flat search returns the entries (\<open>None\<close> when the result is falsy or
    has no \<open>entries\<close>; an entry is \<open>None\<close> when it is falsy) or raises;
  \<^item> \<open>urlparse_netloc\<close>: the URL parser (see \<open>is_supported_url\<close>);
  \<^item> \<open>ffmpeg_available\<close>: the global \<open>FFMPEG_AVAILABLE\<close>.
\<close>

record env =
  transport :: "nat \<Rightarrow> int \<Rightarrow> call \<Rightarrow> string option"
  extract_info :: "nat \<Rightarrow> string \<Rightarrow> exn + info_dict option"
  download :: "nat \<Rightarrow> string \<Rightarrow> string \<Rightarrow> string \<Rightarrow> (string \<times> nat) list \<times> exn option"
  search :: "nat \<Rightarrow> string \<Rightarrow> exn + info_dict option list option"
  urlparse_netloc :: "string \<Rightarrow> string option"
  ffmpeg_available :: bool

text \<open>The state: the global \<open>user_states\<close>, the storage area, the clock, the numbers of
  calls made so far, and the calls in order.\<close>

record world =
  user_states :: "int \<rightharpoonup> string"
  temp_dir :: storage
  clock :: real
  n_transport :: nat
  n_probe :: nat
  n_fetch :: nat
  n_search :: nat
  events :: "event list"

text \<open>Sequencing of steps that may raise: the first exception ends the sequence.\<close>

definition and_then ::
  "(exn + 'a) \<times> world \<Rightarrow> ('a \<Rightarrow> world \<Rightarrow> (exn + 'b) \<times> world) \<Rightarrow> (exn + 'b) \<times> world" where
  "and_then r f = (case r of (Inl e, w) \<Rightarrow> (Inl e, w) | (Inr x, w) \<Rightarrow> f x w)"

definition bot_call :: "env \<Rightarrow> int \<Rightarrow> call \<Rightarrow> world \<Rightarrow> (exn + unit) \<times> world" where
  "bot_call env chat_id c w =
     (let r = transport env (n_transport w) chat_id c;
          w' = w\<lparr>n_transport := Suc (n_transport w),
                 events := events w @ [Transport chat_id c (r = None)]\<rparr>
      in (case r of None \<Rightarrow> Inr () | Some m \<Rightarrow> Inl (OtherError m), w'))"

definition send_message :: "env \<Rightarrow> int \<Rightarrow> message \<Rightarrow> world \<Rightarrow> (exn + unit) \<times> world" where
  "send_message env chat_id m w = bot_call env chat_id (SendMessage m) w"

definition sleep :: "real \<Rightarrow> world \<Rightarrow> world" where
  "sleep d w = w\<lparr>clock := clock w + d\<rparr>"

text \<open>\<open>int(x)\<close> on a float: truncation towards zero.\<close>

definition py_int :: "real \<Rightarrow> int" where
  "py_int x = (if x < 0 then \<lceil>x\<rceil> else \<lfloor>x\<rfloor>)"

subsection \<open>\<open>show_main_menu\<close>\<close>

text \<open>The state is set after the menu is sent, inside the \<open>try\<close>; an exception of the
  send is logged and nothing else happens.\<close>

definition show_main_menu :: "env \<Rightarrow> int \<Rightarrow> world \<Rightarrow> world" where
  "show_main_menu env chat_id w =
     (case send_message env chat_id MsgMainMenu w of
        (Inr _, w1) \<Rightarrow> w1\<lparr>user_states := (user_states w1)(chat_id \<mapsto> ''main'')\<rparr>
      | (Inl e, w1) \<Rightarrow> w1)"

subsection \<open>\<open>get_ydl_options\<close>\<close>

record ydl_opts =
  opt_outtmpl :: string
  opt_format :: string

definition get_ydl_options :: "bool \<Rightarrow> string \<Rightarrow> string \<Rightarrow> ydl_opts" where
  "get_ydl_options ffmpeg download_type quality =
     \<lparr>opt_outtmpl = ''%(title).100s.%(ext)s'',
      opt_format =
        (if download_type = ''audio''
         then (if ffmpeg then ''bestaudio/best'' else ''bestaudio[ext=m4a]/bestaudio/best'')
         else if quality = ''fast'' then ''best[height<=480]/best[height<=360]/worst''
         else if quality = ''hd'' then ''best[height<=1080]/best[height<=720]/best''
         else ''best[height<=720]/best[height<=480]/best'')\<rparr>"

subsection \<open>\<open>download_media\<close>\<close>

definition max_retries :: nat where
  "max_retries = 3"

text \<open>The pre-flight block: every exception inside it, the probe's as well as the
  transport's, is raised again as a plain \<open>Exception\<close> with the text in front.\<close>

definition probe_step :: "env \<Rightarrow> int \<Rightarrow> string \<Rightarrow> world \<Rightarrow> (exn + info_dict) \<times> world" where
  "probe_step env chat_id url w =
     (let w1 = w\<lparr>n_probe := Suc (n_probe w), events := events w @ [Probe url]\<rparr> in
      case extract_info env (n_probe w) url of
        Inl e \<Rightarrow> (Inl (OtherError (''Cannot access video: '' @ str_exn e)), w1)
      | Inr None \<Rightarrow>
          (Inl (OtherError ''Cannot access video: Could not extract video information''), w1)
      | Inr (Some info) \<Rightarrow>
          (case send_message env chat_id
                  (MsgDownloading (sanitize_filename (dict_get (d_title info) ''Unknown''))) w1 of
             (Inl e, w2) \<Rightarrow> (Inl (OtherError (''Cannot access video: '' @ str_exn e)), w2)
           | (Inr _, w2) \<Rightarrow> (Inr info, w2)))"

text \<open>The entries a fetch writes are regular files stamped with the current time; an
  entry of the same name is replaced.\<close>

fun write_files :: "real \<Rightarrow> (string \<times> nat) list \<Rightarrow> storage \<Rightarrow> storage" where
  "write_files now [] st = st"
| "write_files now ((name, sz) # written) st =
     write_files now written
       (filter (\<lambda>(n, e). n \<noteq> name) st
        @ [(name, \<lparr>st_size = sz, st_mtime = now, st_ctime = now, st_isfile = True\<rparr>)])"

definition fetch_step :: "env \<Rightarrow> string \<Rightarrow> ydl_opts \<Rightarrow> world \<Rightarrow> (exn + unit) \<times> world" where
  "fetch_step env url opts w =
     (let (written, raised) = download env (n_fetch w) url (opt_format opts) (opt_outtmpl opts);
          w1 = w\<lparr>n_fetch := Suc (n_fetch w),
                 events := events w @ [Fetch url (opt_format opts) (opt_outtmpl opts)],
                 temp_dir := write_files (clock w) written (temp_dir w)\<rparr>
      in (case raised of Some e \<Rightarrow> Inl e | None \<Rightarrow> Inr (), w1))"

text \<open>
  The body of the \<open>try\<close> of one attempt, in two parts: \<open>attempt_main\<close> is the part
  from the assignment of \<open>timestamp\<close> on, \<open>attempt_body\<close> the whole. The local
  \<open>timestamp\<close> lives across the iterations of the loop: it is unbound (\<open>None\<close>) until
  the first attempt reaches its assignment, and an attempt that raises before the
  assignment leaves the value of the attempt before. The result carries it along.
\<close>

definition attempt_main ::
  "env \<Rightarrow> int \<Rightarrow> string \<Rightarrow> string \<Rightarrow> string \<Rightarrow> int \<Rightarrow> world
     \<Rightarrow> (exn + info_dict \<times> string) \<times> world" where
  "attempt_main env chat_id url download_type quality timestamp w1 =
     (let ydl_opts = (get_ydl_options (ffmpeg_available env) download_type quality)
                       \<lparr>opt_outtmpl := token_prefix timestamp @ ''%(title)s.%(ext)s''\<rparr>
      in case probe_step env chat_id url w1 of
           (Inl e, w2) \<Rightarrow> (Inl e, w2)
         | (Inr info, w2) \<Rightarrow>
             (case fetch_step env url ydl_opts w2 of
                (Inl e, w3) \<Rightarrow> (Inl e, w3)
              | (Inr _, w3) \<Rightarrow>
                  (let w4 = sleep 2 w3;
                       files = discover timestamp (temp_dir w4);
                       (downloaded_file_path, st') = verify_files files (temp_dir w4);
                       w5 = w4\<lparr>temp_dir := st'\<rparr>
                   in case downloaded_file_path of
                        Some p \<Rightarrow> (Inr (info, p), w5)
                      | None \<Rightarrow>
                          (Inl (OtherError ''Download completed but no valid file found''), w5))))"

definition attempt_body ::
  "env \<Rightarrow> int \<Rightarrow> string \<Rightarrow> string \<Rightarrow> string \<Rightarrow> nat \<Rightarrow> int option \<Rightarrow> world
     \<Rightarrow> (exn + info_dict \<times> string) \<times> int option \<times> world" where
  "attempt_body env chat_id url download_type quality attempt ts w =
     (case send_message env chat_id
             (if attempt > 0 then MsgRetry (attempt + 1) max_retries else MsgStarting) w of
        (Inl e, w1) \<Rightarrow> (Inl e, ts, w1)
      | (Inr _, w1) \<Rightarrow>
          (let timestamp = py_int (clock w1);
               (r, w2) = attempt_main env chat_id url download_type quality timestamp w1
           in (r, Some timestamp, w2)))"

text \<open>How one iteration ends: with the function's result, with \<open>continue\<close>, or with an
  exception that leaves the function.\<close>

datatype 'a outcome = Return 'a | Continue | Raise exn

definition attempt_step ::
  "env \<Rightarrow> int \<Rightarrow> string \<Rightarrow> string \<Rightarrow> string \<Rightarrow> nat \<Rightarrow> int option \<Rightarrow> world
     \<Rightarrow> (info_dict \<times> string) outcome \<times> int option \<times> world" where
  "attempt_step env chat_id url download_type quality attempt ts w =
     (case attempt_body env chat_id url download_type quality attempt ts w of
        (Inr r, ts', w1) \<Rightarrow> (Return r, ts', w1)
      | (Inl (DownloadError error_msg), ts', w1) \<Rightarrow>
          (let w2 = w1\<lparr>temp_dir := purge_partial ts' (temp_dir w1)\<rparr> in
           if contains ''HTTP Error 403'' error_msg \<or> contains ''Forbidden'' error_msg then
             (if attempt < max_retries - 1 then (Continue, ts', w2)
              else (Raise (OtherError
                ''Server blocked the request. Please try a different video or try again later.''),
                    ts', w2))
           else if contains ''Video unavailable'' error_msg \<or> contains ''Private video'' error_msg
           then (Raise (OtherError ''Video is unavailable, private, or restricted.''), ts', w2)
           else if attempt < max_retries - 1 then (Continue, ts', sleep 3 w2)
           else (Raise (OtherError (''Download failed: '' @ take 100 error_msg)), ts', w2))
      | (Inl (OtherError m), ts', w1) \<Rightarrow>
          (let w2 = w1\<lparr>temp_dir := purge_partial ts' (temp_dir w1)\<rparr> in
           if attempt < max_retries - 1 then (Continue, ts', sleep 3 w2)
           else (Raise (OtherError m), ts', w2)))"

text \<open>\<open>for attempt in range(max_retries)\<close>, and the \<open>raise\<close> after the loop.\<close>

fun attempts ::
  "env \<Rightarrow> int \<Rightarrow> string \<Rightarrow> string \<Rightarrow> string \<Rightarrow> nat list \<Rightarrow> int option \<Rightarrow> world
     \<Rightarrow> (exn + info_dict \<times> string) \<times> world" where
  "attempts env chat_id url download_type quality [] ts w =
     (Inl (OtherError ''All download attempts failed - no content received''), w)"
| "attempts env chat_id url download_type quality (attempt # rest) ts w =
     (case attempt_step env chat_id url download_type quality attempt ts w of
        (Return r, ts', w') \<Rightarrow> (Inr r, w')
      | (Continue, ts', w') \<Rightarrow> attempts env chat_id url download_type quality rest ts' w'
      | (Raise e, ts', w') \<Rightarrow> (Inl e, w'))"

definition download_media ::
  "env \<Rightarrow> int \<Rightarrow> string \<Rightarrow> string \<Rightarrow> string \<Rightarrow> world \<Rightarrow> (exn + info_dict \<times> string) \<times> world" where
  "download_media env chat_id url download_type quality w =
     attempts env chat_id url download_type quality [0..<max_retries] None w"

subsection \<open>\<open>handle_download_process\<close>\<close>

definition max_upload_attempts :: nat where
  "max_upload_attempts = 2"

text \<open>\<open>open(file_path, 'rb')\<close> raises unless the entry is a regular file.\<close>

definition open_file :: "string \<Rightarrow> world \<Rightarrow> (exn + unit) \<times> world" where
  "open_file file_path w =
     (if isfile (temp_dir w) file_path then (Inr (), w)
      else (Inl (OtherError ''[Errno 2] No such file or directory''), w))"

text \<open>The body of the \<open>try\<close> of one upload attempt.\<close>

definition upload_once :: "env \<Rightarrow> int \<Rightarrow> string \<Rightarrow> string \<Rightarrow> world \<Rightarrow> (exn + unit) \<times> world" where
  "upload_once env chat_id download_type file_path w =
     and_then (open_file file_path w) (\<lambda>_ w1.
     and_then (bot_call env chat_id
                 (if download_type = ''audio'' then SendAudio file_path else SendVideo file_path) w1)
       (\<lambda>_ w2. send_message env chat_id MsgUploadSuccessful w2))"

text \<open>The final fallback: the inner \<open>try\<close> and its handler, whose own send may raise.\<close>

definition document_fallback ::
  "env \<Rightarrow> int \<Rightarrow> string \<Rightarrow> exn \<Rightarrow> world \<Rightarrow> (exn + unit) \<times> world" where
  "document_fallback env chat_id file_path upload_error w =
     (case and_then (open_file file_path w) (\<lambda>_ w1.
           and_then (bot_call env chat_id (SendDocument file_path) w1)
             (\<lambda>_ w2. send_message env chat_id MsgUploadedAsDocument w2)) of
        (Inr _, w3) \<Rightarrow> (Inr (), w3)
      | (Inl doc_error, w3) \<Rightarrow>
          send_message env chat_id (MsgUploadFailed (take 100 (str_exn upload_error))) w3)"

text \<open>\<open>for upload_attempt in range(max_upload_attempts)\<close>.\<close>

fun upload_loop ::
  "env \<Rightarrow> int \<Rightarrow> string \<Rightarrow> string \<Rightarrow> nat list \<Rightarrow> world \<Rightarrow> (exn + unit) \<times> world" where
  "upload_loop env chat_id download_type file_path [] w = (Inr (), w)"
| "upload_loop env chat_id download_type file_path (upload_attempt # rest) w =
     (case upload_once env chat_id download_type file_path w of
        (Inr _, w1) \<Rightarrow> (Inr (), w1)
      | (Inl upload_error, w1) \<Rightarrow>
          if upload_attempt < max_upload_attempts - 1 then
            and_then (send_message env chat_id (MsgUploadRetrying (upload_attempt + 2)) w1)
              (\<lambda>_ w2. upload_loop env chat_id download_type file_path rest (sleep 2 w2))
          else
            and_then (document_fallback env chat_id file_path upload_error w1)
              (\<lambda>_ w2. upload_loop env chat_id download_type file_path rest w2))"

text \<open>The delivery: the announcement, the upload loop and the cleanup after the loop.\<close>

definition deliver :: "env \<Rightarrow> int \<Rightarrow> string \<Rightarrow> string \<Rightarrow> world \<Rightarrow> (exn + unit) \<times> world" where
  "deliver env chat_id download_type file_path w =
     and_then (send_message env chat_id MsgUploading w) (\<lambda>_ w1.
     and_then (bot_call env chat_id (SendChatAction ''upload_document'') w1) (\<lambda>_ w2.
     and_then (upload_loop env chat_id download_type file_path [0..<max_upload_attempts] w2)
       (\<lambda>_ w3.
          (Inr (), (if path_exists (temp_dir w3) file_path
                    then (case unlink (temp_dir w3) file_path of
                            Some st' \<Rightarrow> w3\<lparr>temp_dir := st'\<rparr>
                          | None \<Rightarrow> w3)
                    else w3)))))"

text \<open>A message, the menu, and \<open>return\<close>.\<close>

definition reject :: "env \<Rightarrow> int \<Rightarrow> message \<Rightarrow> world \<Rightarrow> (exn + unit) \<times> world" where
  "reject env chat_id m w =
     and_then (send_message env chat_id m w) (\<lambda>_ w1. (Inr (), show_main_menu env chat_id w1))"

text \<open>The body of the outer \<open>try\<close>. The argument \<open>url\<close> is \<open>None\<close> or a string.\<close>

definition process_body ::
  "env \<Rightarrow> int \<Rightarrow> string option \<Rightarrow> string \<Rightarrow> string \<Rightarrow> world \<Rightarrow> (exn + unit) \<times> world" where
  "process_body env chat_id url download_type quality w =
     (case url of
        None \<Rightarrow> reject env chat_id MsgUnsupportedURL w
      | Some u \<Rightarrow>
          if \<not> is_supported_url (urlparse_netloc env) (Some u) then reject env chat_id MsgUnsupportedURL w
          else
            and_then (send_message env chat_id MsgVerifying w) (\<lambda>_ w1.
            and_then (download_media env chat_id u download_type quality w1) (\<lambda>(info, file_path) w2.
              if file_path = [] then reject env chat_id MsgNoContentReceived w2
              else if \<not> path_exists (temp_dir w2) file_path then reject env chat_id MsgFileNotFound w2
              else
                (case getsize (temp_dir w2) file_path of
                   None \<Rightarrow> (Inl (OtherError ''[Errno 2] No such file or directory''), w2)
                 | Some file_size \<Rightarrow>
                     if file_size < 1024 then
                       and_then (send_message env chat_id MsgTooSmall w2) (\<lambda>_ w3.
                         (Inr (), show_main_menu env chat_id
                            (case unlink (temp_dir w3) file_path of
                               Some st' \<Rightarrow> w3\<lparr>temp_dir := st'\<rparr>
                             | None \<Rightarrow> w3)))
                     else deliver env chat_id download_type file_path w2))))"

text \<open>The handler of the outer \<open>try\<close> picks the text from the exception's message.\<close>

definition error_message :: "string \<Rightarrow> message" where
  "error_message error_msg =
     (if contains ''unavailable'' (lower error_msg) \<or> contains ''private'' (lower error_msg)
      then MsgVideoUnavailable
      else if contains ''blocked'' (lower error_msg) \<or> contains ''403'' error_msg
      then MsgAccessBlocked
      else if contains ''No content'' error_msg \<or> contains ''empty'' (lower error_msg)
      then MsgNoContent
      else MsgDownloadError (take 150 error_msg))"

text \<open>\<open>try\<close>, \<open>except Exception\<close>, \<open>finally\<close>: an exception of the handler's own send
  leaves the function after the \<open>finally\<close> block has run.\<close>

definition handle_download_process ::
  "env \<Rightarrow> int \<Rightarrow> string option \<Rightarrow> string \<Rightarrow> string \<Rightarrow> world \<Rightarrow> (exn + unit) \<times> world" where
  "handle_download_process env chat_id url download_type quality w =
     (let (r, w1) = process_body env chat_id url download_type quality w;
          (r2, w2) = (case r of
                        Inr _ \<Rightarrow> (Inr (), w1)
                      | Inl e \<Rightarrow> send_message env chat_id (error_message (str_exn e)) w1)
      in (r2, show_main_menu env chat_id w2))"

subsection \<open>\<open>process_music_search\<close>\<close>






section \<open>Notions used in the statements\<close>

text \<open>An entry that the retention sweep deletes at time \<open>now\<close> with threshold \<open>m\<close>
  minutes: a regular file older than the threshold.\<close>

definition aged :: "real \<Rightarrow> real \<Rightarrow> storage \<Rightarrow> string \<Rightarrow> bool" where
  "aged now m st n =
     (case map_of st n of
        Some e \<Rightarrow> st_isfile e \<and> (now - st_ctime e) / 60 > m
      | None \<Rightarrow> False)"

text \<open>An entry that passes the size check of the verification loop.\<close>

definition valid_size :: "storage \<Rightarrow> string \<Rightarrow> bool" where
  "valid_size st q = (case getsize st q of Some sz \<Rightarrow> 1024 < sz | None \<Rightarrow> False)"


fun fetch_formats :: "event list \<Rightarrow> string list" where
  "fetch_formats [] = []"
| "fetch_formats (Fetch url fmt outtmpl # es) = fmt # fetch_formats es"
| "fetch_formats (e # es) = fetch_formats es"

section \<open>Concrete collaborators\<close>

text \<open>
  A transport that delivers everything and an engine that knows one clip of 5000 bytes
  and writes it under the output template; the other collaborators below differ from
  this one in a single behaviour. The requester 7 has just been dispatched: the state is
  \<open>processing\<close>, the storage area is empty and the clock reads 100.
\<close>

definition clip_info :: info_dict where
  "clip_info = \<lparr>d_title = Val ''clip'', d_duration = Val 60, d_uploader = Val ''someone'',
                d_url = Missing\<rparr>"

definition engine_writes :: "string \<Rightarrow> string \<Rightarrow> nat \<Rightarrow> (string \<times> nat) list" where
  "engine_writes outtmpl name sz = [(takeWhile (\<lambda>c. c \<noteq> CHR ''%'') outtmpl @ name, sz)]"

definition env_ok :: env where
  "env_ok = \<lparr>transport = (\<lambda>n chat_id c. None),
             extract_info = (\<lambda>n url. Inr (Some clip_info)),
             download = (\<lambda>n url fmt outtmpl. (engine_writes outtmpl ''clip.mp4'' 5000, None)),
             search = (\<lambda>n q. Inr None),
             urlparse_netloc = urlsplit_netloc refuse_bracketed,
             ffmpeg_available = True\<rparr>"

definition w0 :: world where
  "w0 = \<lparr>user_states = [7 \<mapsto> ''processing''], temp_dir = [], clock = 100,
         n_transport = 0, n_probe = 0, n_fetch = 0, n_search = 0, events = []\<rparr>"


text \<open>The probe is refused: the content is private.\<close>

definition env_private :: env where
  "env_private =
     env_ok\<lparr>extract_info := (\<lambda>n url. Inl (DownloadError ''ERROR: [youtube] abc: Private video''))\<rparr>"

text \<open>The first fetch is answered with HTTP 403, the second succeeds.\<close>

definition env_403 :: env where
  "env_403 =
     env_ok\<lparr>download := (\<lambda>n url fmt outtmpl.
        if n = 0
        then ([], Some (DownloadError
                ''ERROR: unable to download video data: HTTP Error 403: Forbidden''))
        else (engine_writes outtmpl ''clip.mp4'' 5000, None))\<rparr>"


text \<open>The fetch writes the clip and a thumbnail of 10 bytes.\<close>

definition env_thumbnail :: env where
  "env_thumbnail =
     env_ok\<lparr>download := (\<lambda>n url fmt outtmpl.
        (engine_writes outtmpl ''clip.mp4'' 5000 @ engine_writes outtmpl ''clip.jpg'' 10, None))\<rparr>"

text \<open>The transport refuses the sixth and the seventh call (the upload of the video and
  the notice after it), as under a rate limit, and delivers every other call.\<close>

definition env_upload_fails :: env where
  "env_upload_fails =
     env_ok\<lparr>transport := (\<lambda>n chat_id c.
        if n = 5 \<or> n = 6
        then Some ''A request to the Telegram API was unsuccessful. Error code: 429''
        else None)\<rparr>"

text \<open>The transport delivers everything but the menu.\<close>

definition env_menu_fails :: env where
  "env_menu_fails =
     env_ok\<lparr>transport := (\<lambda>n chat_id c.
        if c = SendMessage MsgMainMenu
        then Some ''A request to the Telegram API was unsuccessful. Error code: 429''
        else None)\<rparr>"

text \<open>The transport is down: every call raises.\<close>

definition env_down :: env where
  "env_down = env_ok\<lparr>transport := (\<lambda>n chat_id c. Some ''HTTPSConnectionPool: Read timed out'')\<rparr>"






text \<open>A storage area with an old file, a recent file and an old directory.\<close>

definition st_sweep :: storage where
  "st_sweep =
     [(''old.mp4'', \<lparr>st_size = 5000, st_mtime = 0, st_ctime = 0, st_isfile = True\<rparr>),
      (''new.mp4'', \<lparr>st_size = 5000, st_mtime = 900, st_ctime = 900, st_isfile = True\<rparr>),
      (''cache'', \<lparr>st_size = 4096, st_mtime = 0, st_ctime = 0, st_isfile = False\<rparr>)]"

text \<open>A storage area with entries of 1024, 1025 and 10 bytes for the token 100.\<close>

definition st_boundary :: storage where
  "st_boundary =
     [(''download_100_a.part'', \<lparr>st_size = 1024, st_mtime = 100, st_ctime = 100, st_isfile = True\<rparr>),
      (''download_100_b.mp4'', \<lparr>st_size = 1025, st_mtime = 100, st_ctime = 100, st_isfile = True\<rparr>),
      (''download_100_c.jpg'', \<lparr>st_size = 10, st_mtime = 100, st_ctime = 100, st_isfile = True\<rparr>)]"

section \<open>Properties of the utility functions\<close>

lemma contains_iff_sublist: "contains sub s \<longleftrightarrow> sublist sub s"
  by (induction s) (auto simp: sublist_Cons_right)

lemma set_collapse_ws: "set (collapse_ws s) \<subseteq> insert (CHR 0x20) (set s)"
proof (induction s rule: collapse_ws.induct)
  case 1
  show ?case by simp
next
  case (2 c cs)
  show ?case
  proof (cases "isspace c")
    case True
    with 2 have "set (collapse_ws (dropWhile isspace cs)) \<subseteq> insert (CHR 0x20) (set (dropWhile isspace cs))"
      by simp
    moreover have "set (dropWhile isspace cs) \<subseteq> set cs"
      by (auto dest: set_dropWhileD)
    ultimately show ?thesis using True by auto
  next
    case False
    with 2 show ?thesis by auto
  qed
qed

lemma collapse_ws_hd:
  "s \<noteq> [] \<Longrightarrow> \<not> isspace (hd s) \<Longrightarrow> collapse_ws s \<noteq> [] \<and> hd (collapse_ws s) = hd s"
  by (cases s) auto

lemma has_ws_run_Cons:
  "has_ws_run (c # s) \<longleftrightarrow> (s \<noteq> [] \<and> isspace c \<and> isspace (hd s)) \<or> has_ws_run s"
  by (cases s) auto

lemma collapse_ws_no_run: "\<not> has_ws_run (collapse_ws s)"
proof (induction s rule: collapse_ws.induct)
  case 1
  show ?case by simp
next
  case (2 c cs)
  show ?case
  proof (cases "isspace c")
    case True
    let ?r = "dropWhile isspace cs"
    have ih: "\<not> has_ws_run (collapse_ws ?r)" using 2 True by simp
    have "collapse_ws ?r = [] \<or> \<not> isspace (hd (collapse_ws ?r))"
    proof (cases "?r = []")
      case True
      then have "collapse_ws ?r = []" by (simp only: collapse_ws.simps)
      then show ?thesis by blast
    next
      case False
      then have "\<not> isspace (hd ?r)" by (simp add: hd_dropWhile)
      with False show ?thesis using collapse_ws_hd [of ?r] by simp
    qed
    with ih True show ?thesis by (auto simp: has_ws_run_Cons)
  next
    case False
    with 2 show ?thesis by (auto simp: has_ws_run_Cons)
  qed
qed

lemma has_ws_run_drop: "\<not> has_ws_run s \<Longrightarrow> \<not> has_ws_run (drop n s)"
proof (induction n arbitrary: s)
  case 0
  then show ?case by simp
next
  case (Suc n)
  then show ?case by (cases s) (auto simp: has_ws_run_Cons)
qed

lemma has_ws_run_take: "\<not> has_ws_run s \<Longrightarrow> \<not> has_ws_run (take n s)"
proof (induction s arbitrary: n)
  case Nil
  then show ?case by simp
next
  case (Cons c s)
  show ?case
  proof (cases n)
    case 0
    then show ?thesis by simp
  next
    case (Suc m)
    have "\<not> has_ws_run (take m s)" using Cons by (simp add: has_ws_run_Cons)
    moreover have "take m s \<noteq> [] \<Longrightarrow> hd (take m s) = hd s" by (cases s; cases m) auto
    moreover have "take m s \<noteq> [] \<Longrightarrow> s \<noteq> []" by auto
    ultimately show ?thesis using Cons.prems Suc by (auto simp: has_ws_run_Cons)
  qed
qed

lemma lstrip_drop: "lstrip s = drop (length (takeWhile isspace s)) s"
  by (simp add: lstrip_def dropWhile_eq_drop)

lemma rstrip_take: "rstrip s = take (length s - length (takeWhile isspace (rev s))) s"
  by (simp add: rstrip_def dropWhile_eq_drop rev_drop)

lemma strip_no_run: "\<not> has_ws_run s \<Longrightarrow> \<not> has_ws_run (strip s)"
  by (simp add: strip_def rstrip_take lstrip_drop has_ws_run_take has_ws_run_drop)

lemma set_strip: "set (strip s) \<subseteq> set s"
proof -
  have "set (rstrip t) \<subseteq> set t" for t
    by (simp add: rstrip_take set_take_subset)
  moreover have "set (lstrip s) \<subseteq> set s"
    by (simp add: lstrip_drop set_drop_subset)
  ultimately show ?thesis unfolding strip_def by blast
qed

lemma strip_all_space: "\<forall>c \<in> set s. isspace c \<Longrightarrow> strip s = []"
proof -
  assume "\<forall>c \<in> set s. isspace c"
  then have "lstrip s = []" by (simp add: lstrip_def)
  then show ?thesis by (simp add: strip_def rstrip_def)
qed

lemma space_not_forbidden: "CHR 0x20 \<notin> set forbidden_chars"
  by (simp add: forbidden_chars_def)

lemma media_file_clean:
  "set ''media_file'' \<inter> set forbidden_chars = {}" "\<not> has_ws_run ''media_file''"
  by (simp_all add: forbidden_chars_def isspace_def)

lemma sanitize_filename_nonempty: "sanitize_filename x \<noteq> []"
  by (simp add: sanitize_filename_def Let_def split: option.splits)

lemma sanitize_filename_length: "length (sanitize_filename x) \<le> 100"
  by (simp add: sanitize_filename_def Let_def split: option.splits)

lemma sanitize_filename_cases:
  "sanitize_filename x = ''media_file''
   \<or> (\<exists>f0. sanitize_filename x = strip (collapse_ws (filter (\<lambda>c. c \<notin> set forbidden_chars) f0)))
   \<or> (\<exists>f0. sanitize_filename x = take 100 (strip (collapse_ws (filter (\<lambda>c. c \<notin> set forbidden_chars) f0))))"
proof (cases x)
  case None
  then show ?thesis by (simp add: sanitize_filename_def)
next
  case (Some f0)
  let ?c = "strip (collapse_ws (filter (\<lambda>c. c \<notin> set forbidden_chars) f0))"
  have gen: "(if a then m else if (if b then t else c) = [] then m else (if b then t else c)) = m
      \<or> (if a then m else if (if b then t else c) = [] then m else (if b then t else c)) = c
      \<or> (if a then m else if (if b then t else c) = [] then m else (if b then t else c)) = t"
    for a b and m t c :: string
    by auto
  have "sanitize_filename x =
      (if f0 = [] then ''media_file''
       else if (if 100 < length ?c then take 100 ?c else ?c) = [] then ''media_file''
       else (if 100 < length ?c then take 100 ?c else ?c))"
    unfolding Some sanitize_filename_def Let_def by (simp only: option.case)
  with gen [of "f0 = []" "''media_file''" "100 < length ?c" "take 100 ?c" ?c]
  show ?thesis by auto
qed

lemma core_forbidden:
  "set (strip (collapse_ws (filter (\<lambda>c. c \<notin> set forbidden_chars) f0))) \<inter> set forbidden_chars = {}"
proof -
  let ?f1 = "filter (\<lambda>c. c \<notin> set forbidden_chars) f0"
  have "set (strip (collapse_ws ?f1)) \<subseteq> insert (CHR 0x20) (set ?f1)"
    using set_strip [of "collapse_ws ?f1"] set_collapse_ws [of ?f1] by blast
  then show ?thesis using space_not_forbidden by auto
qed

lemma sanitize_filename_forbidden: "set (sanitize_filename x) \<inter> set forbidden_chars = {}"
proof -
  have "set (take 100 s) \<inter> set forbidden_chars = {}" if "set s \<inter> set forbidden_chars = {}" for s
    using that set_take_subset [of 100 s] by blast
  then show ?thesis
    using sanitize_filename_cases [of x] core_forbidden media_file_clean(1) by metis
qed

lemma sanitize_filename_no_run: "\<not> has_ws_run (sanitize_filename x)"
proof -
  have a: "\<not> has_ws_run (strip (collapse_ws s))" for s
    by (simp add: strip_no_run collapse_ws_no_run)
  then have "\<not> has_ws_run (take 100 (strip (collapse_ws s)))" for s
    by (rule has_ws_run_take)
  with a show ?thesis
    using sanitize_filename_cases [of x] media_file_clean(2) by metis
qed

lemma sanitize_filename_fallback:
  assumes "\<forall>c \<in> set s. c \<in> set forbidden_chars \<or> isspace c"
  shows "sanitize_filename (Some s) = ''media_file''"
proof -
  let ?f1 = "filter (\<lambda>c. c \<notin> set forbidden_chars) s"
  have "\<forall>c \<in> set ?f1. isspace c" using assms by auto
  moreover have "isspace (CHR 0x20)" by (simp add: isspace_def)
  ultimately have "\<forall>c \<in> set (collapse_ws ?f1). isspace c"
    using set_collapse_ws [of ?f1] by auto
  then have "strip (collapse_ws ?f1) = []" by (rule strip_all_space)
  then show ?thesis by (simp add: sanitize_filename_def Let_def)
qed

text \<open>
  C10: for every input (\<open>None\<close>, the empty string, a string of forbidden characters and
  whitespace only, or any other string) \<open>sanitize_filename\<close> returns a non-empty string of
  at most 100 characters with none of the characters \<open>< > : " / \ | ? *\<close> and no two
  adjacent whitespace characters; it returns \<open>media_file\<close> on \<open>None\<close> and on every string
  in which nothing but forbidden characters and whitespace occurs.
\<close>

theorem sanitize_filename_safe:
  "sanitize_filename x \<noteq> []
   \<and> length (sanitize_filename x) \<le> 100
   \<and> set (sanitize_filename x) \<inter> set forbidden_chars = {}
   \<and> \<not> has_ws_run (sanitize_filename x)
   \<and> sanitize_filename None = ''media_file''
   \<and> ((\<forall>c \<in> set s. c \<in> set forbidden_chars \<or> isspace c)
        \<longrightarrow> sanitize_filename (Some s) = ''media_file'')"
  using sanitize_filename_nonempty sanitize_filename_length sanitize_filename_forbidden
    sanitize_filename_no_run sanitize_filename_fallback
  by (simp add: sanitize_filename_def)

theorem sanitize_filename_safe_witness:
  "sanitize_filename (Some ''a<b>  :c'') = ''ab c''
   \<and> sanitize_filename (Some '' <> ?  '') = ''media_file''
   \<and> length (sanitize_filename (Some ''a<b>  :c'')) \<le> 100
   \<and> set (sanitize_filename (Some ''a<b>  :c'')) \<inter> set forbidden_chars = {}
   \<and> \<not> has_ws_run (sanitize_filename (Some ''a<b>  :c''))"
proof -
  have p: "sanitize_filename (Some ''a<b>  :c'') = ''ab c''"
    by code_simp
  have q: "\<forall>c \<in> set '' <> ?  ''. c \<in> set forbidden_chars \<or> isspace c"
    by code_simp
  from sanitize_filename_safe [of "Some ''a<b>  :c''" "'' <> ?  ''"] p q
  show ?thesis by simp
qed

lemma set_split_netloc: "set (split_netloc url) \<subseteq> set url"
proof -
  define u1 where "u1 = filter (\<lambda>c. c \<notin> set [CHR 0x09, CHR 0x0A, CHR 0x0D])
                   (dropWhile (\<lambda>c. (of_char c :: nat) \<le> 32) url)"
  define sch where "sch = takeWhile (\<lambda>c. c \<noteq> CHR '':'') u1"
  define u2 where "u2 = (if length sch < length u1 \<and> sch \<noteq> [] \<and> ascii_alpha (hd sch)
                     \<and> list_all (\<lambda>c. c \<in> set scheme_chars) sch
                  then drop (Suc (length sch)) u1 else u1)"
  have u1: "set u1 \<subseteq> set url"
    unfolding u1_def using set_dropWhileD [of _ "\<lambda>c. (of_char c :: nat) \<le> 32" url] by auto
  have u2: "set u2 \<subseteq> set u1"
    unfolding u2_def using set_drop_subset [of "Suc (length sch)" u1] by (simp split: if_split)
  have r: "split_netloc url =
      (if prefix ''//'' u2 then takeWhile (\<lambda>c. c \<notin> set ''/?#'') (drop 2 u2) else [])"
    unfolding split_netloc_def Let_def u1_def [symmetric] sch_def [symmetric] u2_def [symmetric] ..
  have "set (takeWhile (\<lambda>c. c \<notin> set ''/?#'') (drop 2 u2)) \<subseteq> set u2"
    using set_takeWhileD [of _ "\<lambda>c. c \<notin> set ''/?#''" "drop 2 u2"] in_set_dropD [of _ 2 u2]
    by blast
  then have "set (split_netloc url) \<subseteq> set u2"
    unfolding r by (cases "prefix ''//'' u2") (simp_all only: if_True if_False list.set empty_subsetI)
  with u1 u2 show ?thesis by blast
qed

lemma urlsplit_netloc_no_bracket:
  "CHR ''['' \<notin> set url \<Longrightarrow> CHR '']'' \<notin> set url
     \<Longrightarrow> urlsplit_netloc check url = Some (split_netloc url)"
  using set_split_netloc [of url] by (auto simp: urlsplit_netloc_def Let_def)

lemma is_supported_url_no_bracket:
  assumes "CHR ''['' \<notin> set raw" "CHR '']'' \<notin> set raw"
  shows "is_supported_url (urlsplit_netloc check) (Some raw)
       = is_supported_url (urlsplit_netloc refuse_bracketed) (Some raw)"
proof -
  have "CHR ''['' \<notin> set (strip raw)" "CHR '']'' \<notin> set (strip raw)"
    using assms set_strip [of raw] by auto
  then have "CHR ''['' \<notin> set (with_scheme (strip raw))" "CHR '']'' \<notin> set (with_scheme (strip raw))"
    by (auto simp: with_scheme_def)
  then have "urlsplit_netloc check (with_scheme (strip raw))
      = urlsplit_netloc refuse_bracketed (with_scheme (strip raw))"
    by (simp add: urlsplit_netloc_no_bracket)
  then show ?thesis by (simp add: is_supported_url_def)
qed

lemma sublist_map: "sublist xs ys \<Longrightarrow> sublist (map f xs) (map f ys)"
proof -
  assume "sublist xs ys"
  then obtain ps ss where "ys = ps @ xs @ ss" by (auto simp: sublist_def)
  then have "map f ys = map f ps @ map f xs @ map f ss" by simp
  then show ?thesis unfolding sublist_def by blast
qed

lemma sublist_hostname_of: "sublist (hostname_of netloc) netloc"
proof -
  let ?h = "rev (takeWhile (\<lambda>c. c \<noteq> CHR ''@'') (rev netloc))"
  have h: "sublist ?h netloc"
    using takeWhile_is_prefix [of "\<lambda>c. c \<noteq> CHR ''@''" "rev netloc"]
    by (metis prefix_imp_sublist sublist_rev_left)
  have a: "sublist (takeWhile (\<lambda>c. c \<noteq> CHR '':'') ?h) ?h"
    using takeWhile_is_prefix by blast
  have "suffix (tl (dropWhile (\<lambda>c. c \<noteq> CHR ''['') ?h)) ?h"
    using suffix_tl suffix_dropWhile suffix_order.trans by blast
  then have "sublist (tl (dropWhile (\<lambda>c. c \<noteq> CHR ''['') ?h)) ?h" by blast
  moreover have "sublist (takeWhile (\<lambda>c. c \<noteq> CHR '']'') (tl (dropWhile (\<lambda>c. c \<noteq> CHR ''['') ?h)))
      (tl (dropWhile (\<lambda>c. c \<noteq> CHR ''['') ?h))"
    using takeWhile_is_prefix by blast
  ultimately have b: "sublist (takeWhile (\<lambda>c. c \<noteq> CHR '']'') (tl (dropWhile (\<lambda>c. c \<noteq> CHR ''['') ?h))) ?h"
    using sublist_order.order.trans by blast
  have "sublist (hostname_of netloc) ?h"
    unfolding hostname_of_def Let_def using a b by (simp only: split: if_split) blast
  with h show ?thesis using sublist_order.order.trans by blast
qed

text \<open>
  C7 (as amended): \<open>is_supported_url\<close> is total with a Boolean result (every exception
  of its body is the result \<open>False\<close>): \<open>False\<close> on \<open>None\<close> and whenever the parser
  raises. On a string it is \<open>True\<close> exactly when the stripped string is not empty and
  the network location parsed from it (the authority of the URL: user information, host
  and port), with \<open>https://\<close> put in front when the string starts with neither
  \<open>http://\<close> nor \<open>https://\<close>, contains in lower case one of the allow-listed domains.
  So it is \<open>True\<close> whenever the parsed host contains one of them; the converse is not
  claimed. Whatever the check of bracketed hosts, \<open>youtu.be/abc\<close> is accepted and
  \<open>example.com/video\<close> is rejected.
\<close>

theorem is_supported_url_spec:
  "is_supported_url netloc_of None = False
   \<and> (netloc_of (with_scheme (strip raw)) = None \<longrightarrow> is_supported_url netloc_of (Some raw) = False)
   \<and> (is_supported_url netloc_of (Some raw) \<longleftrightarrow>
        strip raw \<noteq> [] \<and>
        (\<exists>netloc. netloc_of (if prefix ''http://'' (strip raw) \<or> prefix ''https://'' (strip raw)
                              then strip raw else ''https://'' @ strip raw) = Some netloc
               \<and> (\<exists>d \<in> set supported_domains. sublist d (lower netloc))))
   \<and> (strip raw \<noteq> [] \<and> netloc_of (with_scheme (strip raw)) = Some netloc
        \<and> d \<in> set supported_domains \<and> sublist d (lower (hostname_of netloc))
      \<longrightarrow> is_supported_url netloc_of (Some raw))
   \<and> is_supported_url (urlsplit_netloc check) (Some ''youtu.be/abc'') = True
   \<and> is_supported_url (urlsplit_netloc check) (Some ''example.com/video'') = False"
proof -
  have a: "is_supported_url (urlsplit_netloc check) (Some ''youtu.be/abc'') = True"
  proof -
    have "is_supported_url (urlsplit_netloc refuse_bracketed) (Some ''youtu.be/abc'') = True"
      by code_simp
    then show ?thesis using is_supported_url_no_bracket [of "''youtu.be/abc''" check] by simp
  qed
  have b: "is_supported_url (urlsplit_netloc check) (Some ''example.com/video'') = False"
  proof -
    have "is_supported_url (urlsplit_netloc refuse_bracketed) (Some ''example.com/video'') = False"
      by code_simp
    then show ?thesis using is_supported_url_no_bracket [of "''example.com/video''" check] by simp
  qed
  have c: "is_supported_url netloc_of (Some raw) \<longleftrightarrow>
        strip raw \<noteq> [] \<and>
        (\<exists>netloc. netloc_of (if prefix ''http://'' (strip raw) \<or> prefix ''https://'' (strip raw)
                              then strip raw else ''https://'' @ strip raw) = Some netloc
               \<and> (\<exists>d \<in> set supported_domains. sublist d (lower netloc)))"
    by (auto simp: is_supported_url_def with_scheme_def Let_def list_ex_iff contains_iff_sublist
        split: option.splits)
  have d: "netloc_of (with_scheme (strip raw)) = None \<longrightarrow> is_supported_url netloc_of (Some raw) = False"
    by (simp add: is_supported_url_def Let_def)
  have e: "is_supported_url netloc_of None = False"
    by (simp add: is_supported_url_def)
  have f: "is_supported_url netloc_of (Some raw)"
    if "strip raw \<noteq> []" "netloc_of (with_scheme (strip raw)) = Some netloc"
      "d \<in> set supported_domains" "sublist d (lower (hostname_of netloc))"
  proof -
    have "sublist (lower (hostname_of netloc)) (lower netloc)"
      unfolding lower_def by (rule sublist_map) (rule sublist_hostname_of)
    with that(4) have "sublist d (lower netloc)"
      using sublist_order.order.trans by blast
    with that(1-3) show ?thesis
      by (auto simp: is_supported_url_def Let_def list_ex_iff contains_iff_sublist)
  qed
  from a b c d e f show ?thesis by blast
qed

theorem is_supported_url_spec_witness:
  "is_supported_url (urlsplit_netloc refuse_bracketed)
       (Some ''  HTTPS://WWW.TikTok.com/@u/video/1 '') = False
   \<and> is_supported_url (urlsplit_netloc refuse_bracketed)
       (Some '' https://WWW.TikTok.com:443/@u/video/1 '') = True
   \<and> is_supported_url (urlsplit_netloc refuse_bracketed) (Some ''http://[::1/x'') = False
   \<and> is_supported_url (urlsplit_netloc refuse_bracketed) (Some ''youtu.be/abc'') = True"
proof -
  have p: "urlsplit_netloc refuse_bracketed (with_scheme (strip ''http://[::1/x'')) = None"
    by code_simp
  have q: "is_supported_url (urlsplit_netloc refuse_bracketed)
             (Some ''  HTTPS://WWW.TikTok.com/@u/video/1 '') = False"
    by code_simp
  have r: "strip '' https://WWW.TikTok.com:443/@u/video/1 '' \<noteq> []
     \<and> urlsplit_netloc refuse_bracketed (with_scheme (strip '' https://WWW.TikTok.com:443/@u/video/1 ''))
         = Some ''WWW.TikTok.com:443''
     \<and> ''tiktok.com'' \<in> set supported_domains
     \<and> contains ''tiktok.com'' (lower (hostname_of ''WWW.TikTok.com:443''))"
    by code_simp
  from is_supported_url_spec [of "urlsplit_netloc refuse_bracketed" "''http://[::1/x''" _ _ refuse_bracketed] p
  have 1: "is_supported_url (urlsplit_netloc refuse_bracketed) (Some ''http://[::1/x'') = False"
    and 2: "is_supported_url (urlsplit_netloc refuse_bracketed) (Some ''youtu.be/abc'') = True"
    by blast+
  have r': "strip '' https://WWW.TikTok.com:443/@u/video/1 '' \<noteq> []
     \<and> urlsplit_netloc refuse_bracketed (with_scheme (strip '' https://WWW.TikTok.com:443/@u/video/1 ''))
         = Some ''WWW.TikTok.com:443''
     \<and> ''tiktok.com'' \<in> set supported_domains
     \<and> sublist ''tiktok.com'' (lower (hostname_of ''WWW.TikTok.com:443''))"
    using r unfolding contains_iff_sublist .
  have 3: "is_supported_url (urlsplit_netloc refuse_bracketed)
       (Some '' https://WWW.TikTok.com:443/@u/video/1 '') = True"
    using is_supported_url_spec [of "urlsplit_netloc refuse_bracketed"
      "'' https://WWW.TikTok.com:443/@u/video/1 ''" "''WWW.TikTok.com:443''" "''tiktok.com''"
      refuse_bracketed] r'
    by blast
  from 1 2 3 q show ?thesis by simp
qed


text \<open>
  C7 as stated fails: the test is made on the network location, not on the host. A URL
  whose user information is an allow-listed domain is accepted although its host
  \<open>evil.example\<close> contains none.
\<close>

theorem netloc_is_not_host:
  "is_supported_url (urlsplit_netloc refuse_bracketed) (Some ''https://youtube.com@evil.example/x'')
     = True
   \<and> urlsplit_netloc refuse_bracketed ''https://youtube.com@evil.example/x''
       = Some ''youtube.com@evil.example''
   \<and> hostname_of ''youtube.com@evil.example'' = ''evil.example''
   \<and> list_ex (\<lambda>d. contains d (lower ''evil.example'')) supported_domains = False"
  by code_simp

section \<open>Properties of the storage area\<close>

lemma map_of_filter_key:
  "map_of (filter (\<lambda>(n, e). P n) st) k = (if P k then map_of st k else None)"
  by (induction st) auto

lemma aged_filter: "aged now m (filter (\<lambda>(n, e). P n) st) k = (P k \<and> aged now m st k)"
  by (simp add: aged_def map_of_filter_key)

lemma sweep_fst:
  "fst (sweep now m ns st d) = filter (\<lambda>(n, e). \<not> (n \<in> set ns \<and> aged now m st n)) st"
proof (induction ns arbitrary: st d)
  case Nil
  show ?case by simp
next
  case (Cons a ns)
  show ?case
  proof (cases "aged now m st a")
    case True
    then obtain e where e: "map_of st a = Some e" "st_isfile e" "(now - st_ctime e) / 60 > m"
      by (auto simp: aged_def split: option.splits)
    then have u: "unlink st a = Some (filter (\<lambda>(n, e). n \<noteq> a) st)"
      by (simp add: unlink_def isfile_def)
    have "fst (sweep now m (a # ns) st d)
        = filter (\<lambda>(n, e). \<not> (n \<in> set ns \<and> aged now m (filter (\<lambda>(n, e). n \<noteq> a) st) n))
            (filter (\<lambda>(n, e). n \<noteq> a) st)"
      using e u Cons.IH by simp
    also have "\<dots> = filter (\<lambda>(n, e). \<not> (n \<in> set (a # ns) \<and> aged now m st n)) st"
      using True by (auto simp: aged_filter intro!: filter_cong)
    finally show ?thesis .
  next
    case False
    then have "fst (sweep now m (a # ns) st d) = fst (sweep now m ns st d)"
      by (auto simp: aged_def split: option.splits)
    also have "\<dots> = filter (\<lambda>(n, e). \<not> (n \<in> set (a # ns) \<and> aged now m st n)) st"
      using False Cons.IH by (auto intro!: filter_cong)
    finally show ?thesis .
  qed
qed

lemma sweep_nothing_aged:
  "\<forall>n \<in> set ns. \<not> aged now m st n \<Longrightarrow> sweep now m ns st d = (st, d)"
  by (induction ns arbitrary: st d) (auto simp: aged_def split: option.splits)

lemma aged_listed: "aged now m st n \<Longrightarrow> n \<in> set (listdir st)"
  by (force simp: aged_def listdir_def split: option.splits dest: map_of_SomeD)

lemma cleanup_leaves_none_aged:
  "\<not> aged now m (fst (cleanup_old_files now m st)) n"
proof -
  have "fst (cleanup_old_files now m st)
      = filter (\<lambda>(k, e). \<not> (k \<in> set (listdir st) \<and> aged now m st k)) st"
    by (simp add: cleanup_old_files_def sweep_fst)
  then show ?thesis
    by (auto simp: aged_filter dest: aged_listed)
qed


text \<open>
  C9: the retention sweep is idempotent. Run a second time with the same clock reading
  and threshold on the storage the first run left, \<open>cleanup_old_files\<close> changes nothing
  and counts zero deletions, and after one run no entry is a regular file older than the
  threshold.
\<close>

theorem cleanup_old_files_idempotent:
  "cleanup_old_files now m (fst (cleanup_old_files now m st))
     = (fst (cleanup_old_files now m st), 0)
   \<and> \<not> aged now m (fst (cleanup_old_files now m st)) n"
proof -
  have "cleanup_old_files now m (fst (cleanup_old_files now m st))
      = (fst (cleanup_old_files now m st), 0)"
    unfolding cleanup_old_files_def [of now m "fst (cleanup_old_files now m st)"]
    by (rule sweep_nothing_aged) (simp add: cleanup_leaves_none_aged)
  then show ?thesis by (simp add: cleanup_leaves_none_aged)
qed

theorem cleanup_old_files_idempotent_witness:
  "cleanup_old_files 1000 10 st_sweep
     = ([(''new.mp4'', \<lparr>st_size = 5000, st_mtime = 900, st_ctime = 900, st_isfile = True\<rparr>),
         (''cache'', \<lparr>st_size = 4096, st_mtime = 0, st_ctime = 0, st_isfile = False\<rparr>)], 1)
   \<and> snd (cleanup_old_files 1000 10 (fst (cleanup_old_files 1000 10 st_sweep))) = 0"
proof -
  have "cleanup_old_files 1000 10 st_sweep
     = ([(''new.mp4'', \<lparr>st_size = 5000, st_mtime = 900, st_ctime = 900, st_isfile = True\<rparr>),
         (''cache'', \<lparr>st_size = 4096, st_mtime = 0, st_ctime = 0, st_isfile = False\<rparr>)], 1)"
    by code_simp
  with cleanup_old_files_idempotent [of 1000 10 st_sweep] show ?thesis by simp
qed

section \<open>Properties of the verification loop\<close>

lemma valid_size_remove: "\<not> valid_size st q \<Longrightarrow> valid_size (filter (\<lambda>(n, e). n \<noteq> q) st) = valid_size st"
  by (auto simp: valid_size_def getsize_def map_of_filter_key fun_eq_iff)

lemma isfile_remove: "isfile (filter (\<lambda>(n, e). n \<noteq> q) st) k = (k \<noteq> q \<and> isfile st k)"
  by (simp add: isfile_def map_of_filter_key)

lemma verify_files_char:
  "verify_files files st =
     (find (valid_size st) files,
      filter (\<lambda>(n, e). \<not> (n \<in> set (takeWhile (\<lambda>q. \<not> valid_size st q) files) \<and> isfile st n)) st)"
proof (induction files arbitrary: st)
  case Nil
  show ?case by simp
next
  case (Cons q files)
  show ?case
  proof (cases "getsize st q")
    case None
    then have nb: "\<not> valid_size st q" and nf: "\<not> isfile st q"
      by (auto simp: valid_size_def getsize_def isfile_def)
    have "filter (\<lambda>(n, e). \<not> (n \<in> set (takeWhile (\<lambda>q. \<not> valid_size st q) files) \<and> isfile st n)) st
        = filter (\<lambda>(n, e). \<not> (n \<in> set (q # takeWhile (\<lambda>q. \<not> valid_size st q) files) \<and> isfile st n)) st"
      using nf by (auto intro!: filter_cong)
    then show ?thesis using None nb Cons.IH [of st] by simp
  next
    case (Some sz)
    show ?thesis
    proof (cases "1024 < sz")
      case True
      then have "valid_size st q" using Some by (simp add: valid_size_def)
      then show ?thesis using Some True by simp
    next
      case False
      then have nb: "\<not> valid_size st q" using Some by (simp add: valid_size_def)
      show ?thesis
      proof (cases "isfile st q")
        case True
        let ?st1 = "filter (\<lambda>(n, e). n \<noteq> q) st"
        have "verify_files (q # files) st = verify_files files ?st1"
          using Some False True by (simp add: unlink_def)
        also have "\<dots> = (find (valid_size st) files,
            filter (\<lambda>(n, e). \<not> (n \<in> set (takeWhile (\<lambda>q. \<not> valid_size st q) files) \<and> isfile ?st1 n)) ?st1)"
          using Cons.IH [of ?st1] valid_size_remove [OF nb] by simp
        also have "filter (\<lambda>(n, e). \<not> (n \<in> set (takeWhile (\<lambda>q. \<not> valid_size st q) files) \<and> isfile ?st1 n)) ?st1
            = filter (\<lambda>(n, e). \<not> (n \<in> set (q # takeWhile (\<lambda>q. \<not> valid_size st q) files) \<and> isfile st n)) st"
          using True by (auto simp: isfile_remove intro!: filter_cong)
        finally show ?thesis using nb by simp
      next
        case nf: False
        have "verify_files (q # files) st = verify_files files st"
          using Some False nf by (simp add: unlink_def)
        moreover have "filter (\<lambda>(n, e). \<not> (n \<in> set (takeWhile (\<lambda>q. \<not> valid_size st q) files) \<and> isfile st n)) st
            = filter (\<lambda>(n, e). \<not> (n \<in> set (q # takeWhile (\<lambda>q. \<not> valid_size st q) files) \<and> isfile st n)) st"
          using nf by (auto intro!: filter_cong)
        ultimately show ?thesis using nb Cons.IH [of st] by simp
      qed
    qed
  qed
qed

text \<open>
  C3 (as amended): the verification loop accepts the first discovered entry, in listing
  order, whose size is strictly greater than 1024 bytes (so an entry of 1025 bytes is
  accepted and an accepted entry is never of 1024 bytes or fewer); every regular file
  listed before it is deleted; the entries listed after the accepted one are not
  examined and stay as they are.
\<close>

theorem verify_files_threshold:
  "verify_files files st =
     (find (valid_size st) files,
      filter (\<lambda>(n, e). \<not> (n \<in> set (takeWhile (\<lambda>q. \<not> valid_size st q) files) \<and> isfile st n)) st)
   \<and> (valid_size st q \<longleftrightarrow> (\<exists>sz. getsize st q = Some sz \<and> 1024 < sz))"
  by (auto simp: verify_files_char valid_size_def split: option.splits)

theorem verify_files_threshold_witness:
  "fst (verify_files (glob_token 100 st_boundary) st_boundary) = Some ''download_100_b.mp4''
   \<and> map fst (snd (verify_files (glob_token 100 st_boundary) st_boundary))
       = [''download_100_b.mp4'', ''download_100_c.jpg'']"
proof -
  let ?fs = "glob_token 100 st_boundary"
  have a: "find (valid_size st_boundary) ?fs = Some ''download_100_b.mp4''"
    by code_simp
  have b: "map fst (filter (\<lambda>(n, e). \<not> (n \<in> set (takeWhile (\<lambda>q. \<not> valid_size st_boundary q) ?fs)
                \<and> isfile st_boundary n)) st_boundary)
      = [''download_100_b.mp4'', ''download_100_c.jpg'']"
    by code_simp
  from verify_files_threshold [of ?fs st_boundary] a b show ?thesis by simp
qed

text \<open>
  C3 as stated fails: of the two entries a fetch leaves under the token, the clip is
  accepted and the thumbnail of 10 bytes, discovered with it, is not deleted.
\<close>

theorem small_file_survives_verification:
  "(case download_media env_thumbnail 7 ''https://youtu.be/abc'' ''video'' ''best'' w0 of
      (r, w) \<Rightarrow>
        (case r of Inr (info, file_path) \<Rightarrow> Some file_path | Inl e \<Rightarrow> None,
         getsize (temp_dir w) ''download_100_clip.jpg''))
   = (Some ''download_100_clip.mp4'', Some 10)"
  by code_simp

section \<open>Properties of one download attempt\<close>



lemma temp_dir_bot_call [simp]: "temp_dir (snd (bot_call env c m w)) = temp_dir w"
  by (simp add: bot_call_def Let_def)

lemma clock_bot_call [simp]: "clock (snd (bot_call env c m w)) = clock w"
  by (simp add: bot_call_def Let_def)

lemma fst_bot_call:
  "fst (bot_call env c m w) = (case transport env (n_transport w) c m of None \<Rightarrow> Inr () | Some x \<Rightarrow> Inl (OtherError x))"
  by (simp add: bot_call_def Let_def)

















section \<open>Properties of the music search\<close>










section \<open>Where the code departs from the specification\<close>

text \<open>
  C1: when the handler of a dispatched request ends, the requester's state is \<open>main\<close>.
  The code resets the state in \<open>show_main_menu\<close> after sending the menu, inside the same
  \<open>try\<close>: when the send of the menu raises (alone, after a delivery that went through,
  or with every other call of a transport that is down), the handler ends and the
  requester is still \<open>processing\<close>.
\<close>

theorem requester_left_processing:
  "(case handle_download_process env_menu_fails 7 (Some ''https://youtu.be/abc'')
           ''video'' ''best'' w0 of
      (r, w) \<Rightarrow> (r, user_states w 7, temp_dir w, last (events w)))
     = (Inr (), Some ''processing'', [], Transport 7 (SendMessage MsgMainMenu) False)
   \<and> (case handle_download_process env_down 7 (Some ''https://youtu.be/abc'')
             ''video'' ''best'' w0 of
        (r, w) \<Rightarrow> user_states w 7) = Some ''processing''"
  by code_simp

text \<open>
  C2: once the upload has been attempted, the payload is deleted, whatever happens in
  the upload phase. In the code the cleanup follows the upload loop outside any
  \<open>finally\<close>: when the upload raises and the notice sent by its handler raises too, the
  handler of the outer \<open>try\<close> takes over and the payload stays in the storage area,
  although the state goes back to \<open>main\<close>.
\<close>

theorem payload_kept_after_failed_upload:
  "(case handle_download_process env_upload_fails 7 (Some ''https://youtu.be/abc'')
           ''video'' ''best'' w0 of
      (r, w) \<Rightarrow> (r, getsize (temp_dir w) ''download_100_clip.mp4'', user_states w 7,
                   drop 7 (events w)))
     = (Inr (), Some 5000, Some ''main'',
        [Transport 7 (SendVideo ''download_100_clip.mp4'') False,
         Transport 7 (SendMessage (MsgUploadRetrying 2)) False,
         Transport 7 (SendMessage (MsgDownloadError
           ''A request to the Telegram API was unsuccessful. Error code: 429'')) True,
         Transport 7 (SendMessage MsgMainMenu) True])"
  by code_simp

text \<open>
  C5: a probe refused for private content is terminal after one probe. The code wraps
  the probe's error into a plain exception, which the retry branch handles: the probe is
  called three times (and the fetch never), with two retry notices in between, before
  the error leaves \<open>download_media\<close>; its text then makes the handler send the
  unavailable message.
\<close>

theorem refused_probe_is_retried:
  "(case download_media env_private 7 ''https://youtu.be/abc'' ''video'' ''best'' w0 of
      (r, w) \<Rightarrow> (r, n_probe w, n_fetch w, events w))
     = (Inl (OtherError ''Cannot access video: ERROR: [youtube] abc: Private video''), 3, 0,
        [Transport 7 (SendMessage MsgStarting) True,
         Probe ''https://youtu.be/abc'',
         Transport 7 (SendMessage (MsgRetry 2 3)) True,
         Probe ''https://youtu.be/abc'',
         Transport 7 (SendMessage (MsgRetry 3 3)) True,
         Probe ''https://youtu.be/abc''])
   \<and> error_message ''Cannot access video: ERROR: [youtube] abc: Private video''
       = MsgVideoUnavailable"
  by code_simp

text \<open>
  C6: after a fetch answered with HTTP 403 the next attempt uses another format
  directive. The code builds the options of every attempt from the same arguments: the
  second fetch carries the directive of the first.
\<close>

theorem retry_after_403_keeps_format:
  "fetch_formats (events (snd (download_media env_403 7 ''https://youtu.be/abc'' ''video''
                                 ''best'' w0)))
     = [''best[height<=720]/best[height<=480]/best'',
        ''best[height<=720]/best[height<=480]/best'']"
  by code_simp

end
